theory Spec2Isabelle
  imports Complex_Main "HOL-Library.Option_ord"
begin

section \<open>Tables of the dataframe engine\<close>

text \<open>
  Both scripts of the repository compose queries of an external dataframe engine. A cell
  of a table is either the structural null or a typed value; a row gives a cell to every
  column name, and a dataframe is a list of column names with a list of rows. The engine
  resolves a column reference against the column list and raises an analysis error for a
  name that is not there.
\<close>

datatype cell = Null | LongV int | IntV int | StringV string | BoolV bool | TimestampV int

type_synonym row = "string \<Rightarrow> cell"

record dataframe =
  columns :: "string list"
  rows :: "row list"

datatype error =
    PathNotFound string
  | PathAlreadyExists string
  | UnresolvedColumn string
  | UnableToInferSchema string
  | ZeroDivisionError

text \<open>
  What the engine does when it coerces a value of one type to another is not part of the
  repository: it is a parameter of the model. A coercion returns \<open>None\<close> for a value it
  cannot coerce. \<open>to_string\<close> is the implicit cast of a non-string value handed to a
  string function, \<open>year_of\<close> the calendar year of a timestamp. \<open>isin_ints\<close> and
  \<open>less_int\<close> are the comparisons of a value that is not an integer with integer
  literals, under whatever implicit type coercion the engine applies.
\<close>

record engine =
  to_long :: "cell \<Rightarrow> int option"
  to_int :: "cell \<Rightarrow> int option"
  to_timestamp :: "cell \<Rightarrow> int option"
  to_boolean :: "cell \<Rightarrow> bool option"
  to_string :: "cell \<Rightarrow> string"
  year_of :: "int \<Rightarrow> int"
  isin_ints :: "cell \<Rightarrow> int list \<Rightarrow> bool option"
  less_int :: "cell \<Rightarrow> int \<Rightarrow> bool option"

text \<open>
  \<open>col(c).cast(T)\<close> with the engine's default cast semantics: null stays null, a value of
  the target type is unchanged, a value the engine cannot coerce becomes null.
\<close>

definition cast_long :: "engine \<Rightarrow> cell \<Rightarrow> cell" where
  "cast_long eng v =
     (case v of
        Null \<Rightarrow> Null
      | LongV n \<Rightarrow> LongV n
      | _ \<Rightarrow> (case to_long eng v of None \<Rightarrow> Null | Some n \<Rightarrow> LongV n))"

definition cast_int :: "engine \<Rightarrow> cell \<Rightarrow> cell" where
  "cast_int eng v =
     (case v of
        Null \<Rightarrow> Null
      | IntV n \<Rightarrow> IntV n
      | _ \<Rightarrow> (case to_int eng v of None \<Rightarrow> Null | Some n \<Rightarrow> IntV n))"

definition cast_timestamp :: "engine \<Rightarrow> cell \<Rightarrow> cell" where
  "cast_timestamp eng v =
     (case v of
        Null \<Rightarrow> Null
      | TimestampV t \<Rightarrow> TimestampV t
      | _ \<Rightarrow> (case to_timestamp eng v of None \<Rightarrow> Null | Some t \<Rightarrow> TimestampV t))"

definition cast_boolean :: "engine \<Rightarrow> cell \<Rightarrow> cell" where
  "cast_boolean eng v =
     (case v of
        Null \<Rightarrow> Null
      | BoolV b \<Rightarrow> BoolV b
      | _ \<Rightarrow> (case to_boolean eng v of None \<Rightarrow> Null | Some b \<Rightarrow> BoolV b))"

text \<open>
  The string functions. \<open>trim\<close> removes the space character from both ends, \<open>lower\<close>
  maps the letters A to Z to a to z. On a column they are null on null.
\<close>

definition is_space :: "char \<Rightarrow> bool" where
  "is_space c = (c = CHR '' '')"

definition trim :: "string \<Rightarrow> string" where
  "trim s = rev (dropWhile is_space (rev (dropWhile is_space s)))"

definition lower_char :: "char \<Rightarrow> char" where
  "lower_char c =
     (case map_of (zip ''ABCDEFGHIJKLMNOPQRSTUVWXYZ'' ''abcdefghijklmnopqrstuvwxyz'') c of
        None \<Rightarrow> c
      | Some d \<Rightarrow> d)"

definition lower :: "string \<Rightarrow> string" where
  "lower s = map lower_char s"

definition trim_col :: "engine \<Rightarrow> cell \<Rightarrow> string option" where
  "trim_col eng v =
     (case v of
        Null \<Rightarrow> None
      | StringV s \<Rightarrow> Some (trim s)
      | _ \<Rightarrow> Some (trim (to_string eng v)))"

definition lower_col :: "string option \<Rightarrow> string option" where
  "lower_col v = map_option lower v"

definition string_cell :: "string option \<Rightarrow> cell" where
  "string_cell v = (case v of None \<Rightarrow> Null | Some s \<Rightarrow> StringV s)"

text \<open>
  \<open>isin\<close> is three-valued: on a null it is null, and a filter keeps the rows whose
  condition is true, so neither a false nor a null condition keeps a row.
\<close>

definition isin :: "'a option \<Rightarrow> 'a list \<Rightarrow> bool option" where
  "isin v xs = map_option (\<lambda>x. x \<in> set xs) v"

definition not3 :: "bool option \<Rightarrow> bool option" where
  "not3 b = map_option Not b"

definition where_rows :: "(row \<Rightarrow> bool option) \<Rightarrow> row list \<Rightarrow> row list" where
  "where_rows p rs = filter (\<lambda>r. p r = Some True) rs"

definition is_null :: "cell \<Rightarrow> bool" where
  "is_null v = (v = Null)"

definition with_column :: "string \<Rightarrow> (row \<Rightarrow> cell) \<Rightarrow> dataframe \<Rightarrow> dataframe" where
  "with_column c f df =
     \<lparr>columns = (if c \<in> set (columns df) then columns df else columns df @ [c]),
      rows = map (\<lambda>r. r(c := f r)) (rows df)\<rparr>"

definition year_col :: "engine \<Rightarrow> cell \<Rightarrow> cell" where
  "year_col eng v =
     (case v of
        Null \<Rightarrow> Null
      | TimestampV t \<Rightarrow> IntV (year_of eng t)
      | _ \<Rightarrow> (case to_timestamp eng v of None \<Rightarrow> Null | Some t \<Rightarrow> IntV (year_of eng t)))"

section \<open>badges_cleaning.py\<close>

definition anomaly_patterns :: "string list" where
  "anomaly_patterns = [''nan'', ''null'', ''n/a'', ''na'', ''none'', ''-'', '''']"

definition is_anomaly :: "engine \<Rightarrow> string \<Rightarrow> row \<Rightarrow> bool option" where
  "is_anomaly eng column_name r =
     isin (lower_col (trim_col eng (r column_name))) anomaly_patterns"

definition validate_string_anomalies :: "engine \<Rightarrow> dataframe \<Rightarrow> string \<Rightarrow> error + nat" where
  "validate_string_anomalies eng df column_name =
     (if column_name \<in> set (columns df)
      then Inr (length (where_rows (is_anomaly eng column_name) (rows df)))
      else Inl (UnresolvedColumn column_name))"

definition raw_columns :: "string list" where
  "raw_columns = [''_Id'', ''_UserId'', ''_Name'', ''_Date'', ''_Class'', ''_TagBased'']"

definition clean_columns :: "string list" where
  "clean_columns = [''id'', ''user_id'', ''name'', ''date'', ''badge_class'', ''tag_based'']"

definition select_badges :: "engine \<Rightarrow> row \<Rightarrow> row" where
  "select_badges eng r =
     (\<lambda>c. Null)
       (''id'' := cast_long eng (r ''_Id''),
        ''user_id'' := cast_long eng (r ''_UserId''),
        ''name'' := string_cell (lower_col (trim_col eng (r ''_Name''))),
        ''date'' := cast_timestamp eng (r ''_Date''),
        ''badge_class'' := cast_int eng (r ''_Class''),
        ''tag_based'' := cast_boolean eng (r ''_TagBased''))"

text \<open>
  \<open>clean_badges_data\<close> returns the cleaned table; the model returns with it the numbers
  the function prints on the way: the two record counts, their difference and the
  anomaly count.
\<close>

record cleaning =
  initial_count :: nat
  name_anomalies :: nat
  final_count :: nat
  records_removed :: int
  df_cleaned :: dataframe

definition clean_badges_data :: "engine \<Rightarrow> dataframe \<Rightarrow> error + cleaning" where
  "clean_badges_data eng df =
     (case filter (\<lambda>c. c \<notin> set (columns df)) raw_columns of
        c # _ \<Rightarrow> Inl (UnresolvedColumn c)
      | [] \<Rightarrow>
          (let n0 = length (rows df);
               selected = \<lparr>columns = clean_columns, rows = map (select_badges eng) (rows df)\<rparr>
           in case validate_string_anomalies eng df ''_Name'' of
                Inl e \<Rightarrow> Inl e
              | Inr anomalies \<Rightarrow>
                  (let cleaned = with_column ''badge_year'' (\<lambda>r. year_col eng (r ''date'')) selected;
                       n1 = length (rows cleaned)
                   in Inr \<lparr>initial_count = n0, name_anomalies = anomalies, final_count = n1,
                           records_removed = int n0 - int n1, df_cleaned = cleaned\<rparr>)))"

definition has_raw_columns :: "dataframe \<Rightarrow> bool" where
  "has_raw_columns df = (\<forall>c \<in> set raw_columns. c \<in> set (columns df))"

text \<open>
  The exporter writes a table under a path of the file store. A written file set keeps the
  column names, the partition column and one part per value of the partition column
  (a single part when the table is not partitioned). A partitioned write of a table
  without rows leaves no part behind, and the engine cannot read such a file set back.
\<close>

record dataset =
  ds_columns :: "string list"
  ds_partition_by :: "string option"
  ds_parts :: "(cell \<times> row list) list"

record world =
  xml_files :: "string \<Rightarrow> dataframe option"
  parquet_files :: "string \<Rightarrow> dataset option"
  session_active :: bool

datatype save_mode = Append | Overwrite | ErrorIfExists | Ignore

definition partition_rows :: "string \<Rightarrow> row list \<Rightarrow> (cell \<times> row list) list" where
  "partition_rows c rs =
     map (\<lambda>k. (k, filter (\<lambda>r. r c = k) rs)) (remdups (map (\<lambda>r. r c) rs))"

definition to_dataset :: "string option \<Rightarrow> dataframe \<Rightarrow> dataset" where
  "to_dataset partition_by df =
     (case partition_by of
        None \<Rightarrow> \<lparr>ds_columns = columns df, ds_partition_by = None, ds_parts = [(Null, rows df)]\<rparr>
      | Some c \<Rightarrow>
          \<lparr>ds_columns = columns df, ds_partition_by = Some c,
           ds_parts = partition_rows c (rows df)\<rparr>)"

definition write_parquet ::
  "save_mode \<Rightarrow> string option \<Rightarrow> dataframe \<Rightarrow> string \<Rightarrow> world \<Rightarrow> error + world" where
  "write_parquet mode partition_by df path w =
     (let new = to_dataset partition_by df;
          missing = (case partition_by of None \<Rightarrow> [] | Some c \<Rightarrow> filter (\<lambda>c. c \<notin> set (columns df)) [c])
      in case missing of
           c # _ \<Rightarrow> Inl (UnresolvedColumn c)
         | [] \<Rightarrow>
             (case parquet_files w path of
                None \<Rightarrow> Inr (w\<lparr>parquet_files := (parquet_files w)(path \<mapsto> new)\<rparr>)
              | Some old \<Rightarrow>
                  (case mode of
                     Overwrite \<Rightarrow> Inr (w\<lparr>parquet_files := (parquet_files w)(path \<mapsto> new)\<rparr>)
                   | Append \<Rightarrow>
                       Inr (w\<lparr>parquet_files :=
                         (parquet_files w)(path \<mapsto> old\<lparr>ds_parts := ds_parts old @ ds_parts new\<rparr>)\<rparr>)
                   | ErrorIfExists \<Rightarrow> Inl (PathAlreadyExists path)
                   | Ignore \<Rightarrow> Inr w)))"

definition read_parquet :: "world \<Rightarrow> string \<Rightarrow> error + dataframe" where
  "read_parquet w path =
     (case parquet_files w path of
        None \<Rightarrow> Inl (PathNotFound path)
      | Some ds \<Rightarrow>
          if ds_parts ds = [] then Inl (UnableToInferSchema path)
          else Inr \<lparr>columns = ds_columns ds, rows = concat (map snd (ds_parts ds))\<rparr>)"

text \<open>
  \<open>export_to_parquet\<close>: the writer is in mode overwrite; \<open>if partition_by\<close> is Python's
  truth test, false for \<open>None\<close> and for the empty string.
\<close>

definition export_to_parquet ::
  "dataframe \<Rightarrow> string \<Rightarrow> string option \<Rightarrow> world \<Rightarrow> error + world" where
  "export_to_parquet df output_path partition_by w =
     (let partitioning =
            (case partition_by of
               None \<Rightarrow> None
             | Some c \<Rightarrow> if c = [] then None else Some c)
      in write_parquet Overwrite partitioning df output_path w)"

text \<open>
  \<open>validate_parquet_output\<close> returns the row count of the file set read back; the model
  returns with it the per-year counts that the function prints,
  \<open>groupBy("badge_year").count().orderBy("badge_year")\<close>, nulls first.
\<close>

definition year_key :: "cell \<Rightarrow> int option" where
  "year_key k = (case k of IntV n \<Rightarrow> Some n | LongV n \<Rightarrow> Some n | _ \<Rightarrow> None)"

definition group_counts :: "string \<Rightarrow> row list \<Rightarrow> (cell \<times> nat) list" where
  "group_counts c rs =
     map (\<lambda>k. (k, length (filter (\<lambda>r. r c = k) rs))) (remdups (map (\<lambda>r. r c) rs))"

record validation =
  parquet_count :: nat
  partition_statistics :: "(cell \<times> nat) list"

definition validate_parquet_output :: "world \<Rightarrow> string \<Rightarrow> error + validation" where
  "validate_parquet_output w output_path =
     (case read_parquet w output_path of
        Inl e \<Rightarrow> Inl e
      | Inr df_parquet \<Rightarrow>
          if ''badge_year'' \<in> set (columns df_parquet)
          then Inr \<lparr>parquet_count = length (rows df_parquet),
                    partition_statistics =
                      sort_key (\<lambda>p. year_key (fst p)) (group_counts ''badge_year'' (rows df_parquet))\<rparr>
          else Inl (UnresolvedColumn ''badge_year''))"

text \<open>
  \<open>main\<close> of badges_cleaning.py. An exception of a step leaves \<open>main\<close> at that step: the
  model returns the error with the world as it is then. The steps after the export
  (validation, summary, stopping the session) are \<open>finish_cleaning\<close>; the cleaned table
  is in scope there.
\<close>

definition create_spark_session :: "world \<Rightarrow> world" where
  "create_spark_session w = w\<lparr>session_active := True\<rparr>"

definition spark_stop :: "world \<Rightarrow> world" where
  "spark_stop w = w\<lparr>session_active := False\<rparr>"

definition load_badges_xml :: "world \<Rightarrow> string \<Rightarrow> error + dataframe" where
  "load_badges_xml w file_path =
     (case xml_files w file_path of None \<Rightarrow> Inl (PathNotFound file_path) | Some df \<Rightarrow> Inr df)"

definition input_path :: string where
  "input_path = ''D:/Projects/Big-data-project/data/Badges.xml''"

definition output_path :: string where
  "output_path = ''D:/Projects/Big-data-project/data/processed/badges''"

definition finish_cleaning :: "cleaning \<Rightarrow> world \<Rightarrow> (error + nat) \<times> world" where
  "finish_cleaning c w =
     (case validate_parquet_output w output_path of
        Inl e \<Rightarrow> (Inl e, w)
      | Inr v \<Rightarrow> (Inr (parquet_count v), spark_stop w))"

definition cleaning_main :: "engine \<Rightarrow> world \<Rightarrow> (error + nat) \<times> world" where
  "cleaning_main eng w0 =
     (let w = create_spark_session w0 in
      case load_badges_xml w input_path of
        Inl e \<Rightarrow> (Inl e, w)
      | Inr df \<Rightarrow>
          (case clean_badges_data eng df of
             Inl e \<Rightarrow> (Inl e, w)
           | Inr c \<Rightarrow>
               (case export_to_parquet (df_cleaned c) output_path (Some ''badge_year'') w of
                  Inl e \<Rightarrow> (Inl e, w)
                | Inr w' \<Rightarrow> finish_cleaning c w')))"

section \<open>badges_analysis.py\<close>

text \<open>
  Python's \<open>/\<close> raises on a zero divisor. The quotient is a float in the script and an
  exact rational here.
\<close>

definition truediv :: "nat \<Rightarrow> nat \<Rightarrow> error + rat" where
  "truediv a b = (if b = 0 then Inl ZeroDivisionError else Inr (of_nat a / of_nat b))"

definition null_count :: "dataframe \<Rightarrow> string \<Rightarrow> nat" where
  "null_count df c = length (filter (\<lambda>r. is_null (r c)) (rows df))"

definition null_percentage :: "nat \<Rightarrow> nat \<Rightarrow> error + rat" where
  "null_percentage nulls total_rows =
     (if total_rows > 0
      then (case truediv nulls total_rows of Inl e \<Rightarrow> Inl e | Inr q \<Rightarrow> Inr (q * 100))
      else Inr 0)"

fun null_percentages :: "dataframe \<Rightarrow> nat \<Rightarrow> string list \<Rightarrow> error + (string \<times> nat \<times> rat) list" where
  "null_percentages df total_rows [] = Inr []"
| "null_percentages df total_rows (column # cs) =
     (let nulls = null_count df column in
      case null_percentage nulls total_rows of
        Inl e \<Rightarrow> Inl e
      | Inr percentage \<Rightarrow>
          (case null_percentages df total_rows cs of
             Inl e \<Rightarrow> Inl e
           | Inr ps \<Rightarrow> Inr ((column, nulls, percentage) # ps)))"

text \<open>
  A column compared with integer literals: a null compares as null, an integer cell by
  its value, and a cell of another type as the engine decides.
\<close>

definition isin_literals :: "engine \<Rightarrow> cell \<Rightarrow> int list \<Rightarrow> bool option" where
  "isin_literals eng v ns =
     (case v of
        Null \<Rightarrow> None
      | LongV n \<Rightarrow> Some (n \<in> set ns)
      | IntV n \<Rightarrow> Some (n \<in> set ns)
      | _ \<Rightarrow> isin_ints eng v ns)"

definition less_literal :: "engine \<Rightarrow> cell \<Rightarrow> int \<Rightarrow> bool option" where
  "less_literal eng v k =
     (case v of
        Null \<Rightarrow> None
      | LongV n \<Rightarrow> Some (n < k)
      | IntV n \<Rightarrow> Some (n < k)
      | _ \<Rightarrow> less_int eng v k)"

definition is_invalid_class :: "engine \<Rightarrow> row \<Rightarrow> bool option" where
  "is_invalid_class eng r = not3 (isin_literals eng (r ''_Class'') [1, 2, 3])"

definition is_negative_user :: "engine \<Rightarrow> row \<Rightarrow> bool option" where
  "is_negative_user eng r = less_literal eng (r ''_UserId'') 0"

definition is_empty_name :: "engine \<Rightarrow> row \<Rightarrow> bool option" where
  "is_empty_name eng r = map_option (\<lambda>s. s = []) (trim_col eng (r ''_Name''))"

definition string_value :: "engine \<Rightarrow> cell \<Rightarrow> string option" where
  "string_value eng v =
     (case v of Null \<Rightarrow> None | StringV s \<Rightarrow> Some s | _ \<Rightarrow> Some (to_string eng v))"

definition has_whitespace :: "engine \<Rightarrow> row \<Rightarrow> bool option" where
  "has_whitespace eng r = map_option (\<lambda>s. s \<noteq> trim s) (string_value eng (r ''_Name''))"

record profile =
  total_rows :: nat
  null_report :: "(string \<times> nat \<times> rat) list"
  dup_count :: nat
  invalid_class_count :: nat
  null_dates :: nat
  neg_count :: nat
  null_users :: nat
  unique_names :: nat
  null_names :: nat
  empty_names :: nat
  whitespace_names :: nat

definition profile_columns :: "string list" where
  "profile_columns = [''_Id'', ''_Class'', ''_TagBased'', ''_Date'', ''_UserId'', ''_Name'']"

definition profile_badges :: "engine \<Rightarrow> dataframe \<Rightarrow> error + profile" where
  "profile_badges eng df =
     (let total = length (rows df) in
      case null_percentages df total (columns df) of
        Inl e \<Rightarrow> Inl e
      | Inr report \<Rightarrow>
          (case filter (\<lambda>c. c \<notin> set (columns df)) profile_columns of
             c # _ \<Rightarrow> Inl (UnresolvedColumn c)
           | [] \<Rightarrow>
               Inr \<lparr>total_rows = total,
                    null_report = report,
                    dup_count = length (filter (\<lambda>g. snd g > 1) (group_counts ''_Id'' (rows df))),
                    invalid_class_count = length (where_rows (is_invalid_class eng) (rows df)),
                    null_dates = null_count df ''_Date'',
                    neg_count = length (where_rows (is_negative_user eng) (rows df)),
                    null_users = null_count df ''_UserId'',
                    unique_names = length (remdups (map (\<lambda>r. r ''_Name'') (rows df))),
                    null_names = null_count df ''_Name'',
                    empty_names = length (where_rows (is_empty_name eng) (rows df)),
                    whitespace_names = length (where_rows (has_whitespace eng) (rows df))\<rparr>))"

definition analysis_main :: "engine \<Rightarrow> world \<Rightarrow> (error + profile) \<times> world" where
  "analysis_main eng w0 =
     (let w = create_spark_session w0 in
      case load_badges_xml w input_path of
        Inl e \<Rightarrow> (Inl e, w)
      | Inr df \<Rightarrow>
          (case profile_badges eng df of
             Inl e \<Rightarrow> (Inl e, w)
           | Inr report \<Rightarrow> (Inr report, spark_stop w)))"

section \<open>Coercion failures and the counts of the specification\<close>

text \<open>
  A value fails a cast when it is not null, not of the target type already, and the
  engine cannot coerce it.
\<close>

definition fails_long :: "engine \<Rightarrow> cell \<Rightarrow> bool" where
  "fails_long eng v = (case v of Null \<Rightarrow> False | LongV n \<Rightarrow> False | _ \<Rightarrow> to_long eng v = None)"

definition fails_int :: "engine \<Rightarrow> cell \<Rightarrow> bool" where
  "fails_int eng v = (case v of Null \<Rightarrow> False | IntV n \<Rightarrow> False | _ \<Rightarrow> to_int eng v = None)"

definition fails_timestamp :: "engine \<Rightarrow> cell \<Rightarrow> bool" where
  "fails_timestamp eng v =
     (case v of Null \<Rightarrow> False | TimestampV t \<Rightarrow> False | _ \<Rightarrow> to_timestamp eng v = None)"

definition fails_boolean :: "engine \<Rightarrow> cell \<Rightarrow> bool" where
  "fails_boolean eng v =
     (case v of Null \<Rightarrow> False | BoolV b \<Rightarrow> False | _ \<Rightarrow> to_boolean eng v = None)"

text \<open>
  The integer in an integer cell, and the tables whose class column holds integers and
  nulls only, which is the type the loader gives a column of numeric attributes.
\<close>

definition int_value :: "cell \<Rightarrow> int option" where
  "int_value v = (case v of LongV n \<Rightarrow> Some n | IntV n \<Rightarrow> Some n | _ \<Rightarrow> None)"

definition is_integer_cell :: "cell \<Rightarrow> bool" where
  "is_integer_cell v = (case v of Null \<Rightarrow> True | LongV n \<Rightarrow> True | IntV n \<Rightarrow> True | _ \<Rightarrow> False)"

definition class_is_integer :: "dataframe \<Rightarrow> bool" where
  "class_is_integer df = list_all (\<lambda>r. is_integer_cell (r ''_Class'')) (rows df)"

text \<open>
  The invalid-class count in the words of the specification: the rows whose class value
  is not one of 1, 2 and 3.
\<close>

definition spec_invalid_class_count :: "dataframe \<Rightarrow> nat" where
  "spec_invalid_class_count df =
     length (filter (\<lambda>r. int_value (r ''_Class'') \<notin> {Some 1, Some 2, Some 3}) (rows df))"

section \<open>A sample engine and sample tables\<close>

text \<open>
  An engine to run the model on: it reads a string of decimal digits as a number and
  \<open>true\<close> and \<open>false\<close> as booleans, takes a number as the seconds of a timestamp (held
  in microseconds since 1970-01-01 UTC) and reads no string as a timestamp. The year of
  a timestamp is the year of the proleptic Gregorian calendar. A string compared with
  integer literals is compared through the number it reads as, and a string that reads as
  no number is equal to none of them.
\<close>

definition digit_of :: "char \<Rightarrow> nat option" where
  "digit_of c = map_of (zip ''0123456789'' [0, 1, 2, 3, 4, 5, 6, 7, 8, 9]) c"

fun parse_digits :: "nat \<Rightarrow> string \<Rightarrow> nat option" where
  "parse_digits acc [] = Some acc"
| "parse_digits acc (c # cs) =
     (case digit_of c of None \<Rightarrow> None | Some d \<Rightarrow> parse_digits (10 * acc + d) cs)"

definition parse_number :: "string \<Rightarrow> int option" where
  "parse_number s = (if s = [] then None else map_option int (parse_digits 0 s))"

definition civil_year :: "int \<Rightarrow> int" where
  "civil_year days =
     (let z = days + 719468;
          era = z div 146097;
          doe = z mod 146097;
          yoe = (doe - doe div 1460 + doe div 36524 - doe div 146096) div 365;
          doy = doe - (365 * yoe + yoe div 4 - yoe div 100);
          mp = (5 * doy + 2) div 153
      in yoe + era * 400 + (if mp < 10 then 0 else 1))"

definition sample_engine :: engine where
  "sample_engine =
     \<lparr>to_long = (\<lambda>v. case v of
          LongV n \<Rightarrow> Some n | IntV n \<Rightarrow> Some n | StringV s \<Rightarrow> parse_number s
        | BoolV b \<Rightarrow> Some (if b then 1 else 0) | TimestampV t \<Rightarrow> Some (t div 1000000)
        | Null \<Rightarrow> None),
      to_int = (\<lambda>v. case v of
          LongV n \<Rightarrow> Some n | IntV n \<Rightarrow> Some n | StringV s \<Rightarrow> parse_number s
        | BoolV b \<Rightarrow> Some (if b then 1 else 0) | TimestampV t \<Rightarrow> Some (t div 1000000)
        | Null \<Rightarrow> None),
      to_timestamp = (\<lambda>v. case v of
          LongV n \<Rightarrow> Some (n * 1000000) | IntV n \<Rightarrow> Some (n * 1000000)
        | TimestampV t \<Rightarrow> Some t | _ \<Rightarrow> None),
      to_boolean = (\<lambda>v. case v of
          BoolV b \<Rightarrow> Some b | LongV n \<Rightarrow> Some (n \<noteq> 0) | IntV n \<Rightarrow> Some (n \<noteq> 0)
        | StringV s \<Rightarrow> (if s = ''true'' then Some True else if s = ''false'' then Some False else None)
        | _ \<Rightarrow> None),
      to_string = (\<lambda>v. case v of StringV s \<Rightarrow> s | _ \<Rightarrow> ''?''),
      year_of = (\<lambda>t. civil_year (t div 86400000000)),
      isin_ints = (\<lambda>v ns. case v of
          StringV s \<Rightarrow> Some (case parse_number s of None \<Rightarrow> False | Some n \<Rightarrow> n \<in> set ns)
        | _ \<Rightarrow> None),
      less_int = (\<lambda>v k. case v of
          StringV s \<Rightarrow> map_option (\<lambda>n. n < k) (parse_number s)
        | _ \<Rightarrow> None)\<rparr>"

definition badge :: "cell \<Rightarrow> cell \<Rightarrow> cell \<Rightarrow> cell \<Rightarrow> cell \<Rightarrow> cell \<Rightarrow> row" where
  "badge i u n d c t =
     (\<lambda>c. Null)(''_Id'' := i, ''_UserId'' := u, ''_Name'' := n, ''_Date'' := d,
       ''_Class'' := c, ''_TagBased'' := t)"

text \<open>Three badges with the classes 1, 2 and 99; the second has a sentinel name.\<close>

definition three_badges :: dataframe where
  "three_badges =
     \<lparr>columns = raw_columns,
      rows =
        [badge (LongV 1) (LongV (- 1)) (StringV ''  Nice Answer  '') (TimestampV 1221468903000000)
           (LongV 1) (BoolV False),
         badge (LongV 2) (LongV 7) (StringV '' N/A'') (TimestampV 1262304000000000)
           (LongV 2) (BoolV True),
         badge (LongV 3) (LongV 8) (StringV ''Teacher'') (TimestampV 1262303999000000)
           (LongV 99) (BoolV False)]\<rparr>"

text \<open>A table without rows.\<close>

definition no_badges :: dataframe where
  "no_badges = \<lparr>columns = raw_columns, rows = []\<rparr>"

text \<open>
  A table loaded with string columns: the first row has nothing the sample engine can
  coerce, the second has nulls.
\<close>

definition text_badges :: dataframe where
  "text_badges =
     \<lparr>columns = raw_columns,
      rows =
        [badge (StringV ''abc'') (StringV ''x1'') (StringV ''Guru'') (StringV ''yesterday'')
           (StringV ''gold'') (StringV ''maybe''),
         badge (StringV ''12'') Null Null Null Null Null]\<rparr>"

text \<open>Two badges, the second without a class.\<close>

definition null_class_badges :: dataframe where
  "null_class_badges =
     \<lparr>columns = raw_columns,
      rows =
        [badge (LongV 1) (LongV 7) (StringV ''Teacher'') (TimestampV 1221468903000000)
           (LongV 1) (BoolV False),
         badge (LongV 2) (LongV 8) (StringV ''Student'') (TimestampV 1262304000000000)
           Null (BoolV False)]\<rparr>"

definition world_of :: "dataframe \<Rightarrow> world" where
  "world_of df =
     \<lparr>xml_files = (\<lambda>p. None)(input_path \<mapsto> df), parquet_files = (\<lambda>p. None),
      session_active = False\<rparr>"

definition empty_world :: world where
  "empty_world = \<lparr>xml_files = (\<lambda>p. None), parquet_files = (\<lambda>p. None), session_active = False\<rparr>"

text \<open>
  A world whose file set under the output path holds a single row, whatever is written
  or cleaned elsewhere.
\<close>

definition stale_files :: dataset where
  "stale_files =
     \<lparr>ds_columns = clean_columns @ [''badge_year''],
      ds_partition_by = Some ''badge_year'',
      ds_parts = [(IntV 2008, [(\<lambda>c. Null)(''id'' := LongV 1, ''badge_year'' := IntV 2008)])]\<rparr>"

definition stale_world :: world where
  "stale_world =
     \<lparr>xml_files = (\<lambda>p. None), parquet_files = (\<lambda>p. None)(output_path \<mapsto> stale_files),
      session_active = True\<rparr>"

section \<open>Properties of the cleaner\<close>

lemma no_missing_column:
  "has_raw_columns df \<Longrightarrow> filter (\<lambda>c. c \<notin> set (columns df)) raw_columns = []"
  by (simp add: has_raw_columns_def filter_empty_conv)

lemma name_is_raw_column: "has_raw_columns df \<Longrightarrow> ''_Name'' \<in> set (columns df)"
  by (simp add: has_raw_columns_def raw_columns_def)

lemma length_rows_with_column: "length (rows (with_column c f df)) = length (rows df)"
  by (simp add: with_column_def)

lemma clean_badges_data_returns:
  assumes "has_raw_columns df"
  shows "clean_badges_data eng df =
    Inr \<lparr>initial_count = length (rows df),
         name_anomalies = length (where_rows (is_anomaly eng ''_Name'') (rows df)),
         final_count = length (rows df),
         records_removed = 0,
         df_cleaned = with_column ''badge_year'' (\<lambda>r. year_col eng (r ''date''))
           \<lparr>columns = clean_columns, rows = map (select_badges eng) (rows df)\<rparr>\<rparr>"
  using no_missing_column [OF assms] name_is_raw_column [OF assms]
  by (simp add: clean_badges_data_def validate_string_anomalies_def Let_def
      length_rows_with_column)

lemma has_raw_columns_three: "has_raw_columns three_badges"
  by (simp add: has_raw_columns_def three_badges_def)

lemma length_three_badges: "length (rows three_badges) = 3"
  by (simp add: three_badges_def)

subsection \<open>Row count\<close>

text \<open>
  Claim C1. For every input table that has the six raw columns, \<open>clean_badges_data\<close>
  returns, and the cleaned table has exactly as many rows as the input: the projection
  with its casts, the anomaly scan and the derivation of \<open>badge_year\<close> neither drop
  nor add a row, so the initial and the final record count are equal and the reported
  number of records removed is zero. (On a table that lacks one of the columns the
  projection raises and there is no cleaned table.)
\<close>

theorem clean_keeps_row_count:
  assumes "has_raw_columns df"
  shows "\<exists>c. clean_badges_data eng df = Inr c
           \<and> length (rows (df_cleaned c)) = length (rows df)
           \<and> initial_count c = length (rows df)
           \<and> final_count c = initial_count c
           \<and> records_removed c = 0"
  by (simp add: clean_badges_data_returns [OF assms] length_rows_with_column)

theorem clean_keeps_row_count_witness:
  "has_raw_columns three_badges \<and>
   (\<exists>c. clean_badges_data sample_engine three_badges = Inr c
           \<and> length (rows (df_cleaned c)) = 3
           \<and> initial_count c = 3
           \<and> final_count c = initial_count c
           \<and> records_removed c = 0)"
  using clean_keeps_row_count [OF has_raw_columns_three, of sample_engine] has_raw_columns_three
  by (simp add: length_three_badges)

subsection \<open>Trimming and lowercasing\<close>

lemma is_space_lower_char: "is_space (lower_char c) = is_space c"
  by (simp add: is_space_def lower_char_def)

lemma dropWhile_fixed: "dropWhile P xs = xs \<longleftrightarrow> xs = [] \<or> \<not> P (hd xs)"
proof (cases xs)
  case Nil
  then show ?thesis by simp
next
  case (Cons a list)
  have "length (dropWhile P list) \<le> length list"
    by (rule length_dropWhile_le)
  then have "dropWhile P list \<noteq> a # list"
    by auto
  with Cons show ?thesis by simp
qed

lemma strip_back_split: "xs = rev (dropWhile P (rev xs)) @ rev (takeWhile P (rev xs))"
proof -
  have "rev (takeWhile P (rev xs) @ dropWhile P (rev xs)) = rev (rev xs)"
    by (simp only: takeWhile_dropWhile_id)
  then show ?thesis
    by (simp only: rev_append rev_rev_ident)
qed

lemma strip_back_front:
  assumes "xs = [] \<or> \<not> P (hd xs)"
  shows "rev (dropWhile P (rev xs)) = [] \<or> \<not> P (hd (rev (dropWhile P (rev xs))))"
proof (cases "rev (dropWhile P (rev xs)) = []")
  case True
  then show ?thesis by simp
next
  case False
  have "hd xs = hd (rev (dropWhile P (rev xs)) @ rev (takeWhile P (rev xs)))"
    using strip_back_split [of xs P] by simp
  also have "\<dots> = hd (rev (dropWhile P (rev xs)))"
    using False by (rule hd_append2)
  finally have "hd (rev (dropWhile P (rev xs))) = hd xs"
    by simp
  moreover have "xs \<noteq> []"
    using False by auto
  ultimately show ?thesis
    using assms by simp
qed

lemma trim_no_space_front: "dropWhile is_space (trim s) = trim s"
proof -
  have "dropWhile is_space (dropWhile is_space s) = dropWhile is_space s"
    by (rule dropWhile_idem)
  then have "dropWhile is_space s = [] \<or> \<not> is_space (hd (dropWhile is_space s))"
    by (simp only: dropWhile_fixed)
  then have "trim s = [] \<or> \<not> is_space (hd (trim s))"
    unfolding trim_def by (rule strip_back_front)
  then show ?thesis
    by (simp only: dropWhile_fixed)
qed

lemma trim_no_space_back: "dropWhile is_space (rev (trim s)) = rev (trim s)"
  by (simp add: trim_def)

lemma trim_fixed: "dropWhile is_space t = t \<Longrightarrow> dropWhile is_space (rev t) = rev t \<Longrightarrow> trim t = t"
  by (simp add: trim_def)

lemma dropWhile_lower: "dropWhile is_space (lower s) = lower (dropWhile is_space s)"
  by (induction s) (simp_all add: lower_def is_space_lower_char)

lemma rev_lower: "rev (lower s) = lower (rev s)"
  by (simp add: lower_def rev_map)

lemma trim_lower: "trim (lower s) = lower (trim s)"
  by (simp add: trim_def dropWhile_lower rev_lower)

lemma trim_trim: "trim (trim s) = trim s"
  by (rule trim_fixed) (rule trim_no_space_front, rule trim_no_space_back)

lemma trim_lower_trim: "trim (lower (trim s)) = lower (trim s)"
  by (simp add: trim_lower trim_trim)

subsection \<open>The cells of the cleaned table\<close>

lemma rows_cleaned:
  assumes "has_raw_columns df" and "clean_badges_data eng df = Inr c"
  shows "rows (df_cleaned c) =
    map (\<lambda>r. (select_badges eng r)(''badge_year'' := year_col eng (select_badges eng r ''date'')))
      (rows df)"
  using assms(2) unfolding clean_badges_data_returns [OF assms(1)]
  by (auto simp add: with_column_def)

lemma columns_cleaned:
  assumes "has_raw_columns df" and "clean_badges_data eng df = Inr c"
  shows "columns (df_cleaned c) = clean_columns @ [''badge_year'']"
  using assms(2) unfolding clean_badges_data_returns [OF assms(1)]
  by (auto simp add: with_column_def clean_columns_def)

lemma anomalies_cleaned:
  assumes "has_raw_columns df" and "clean_badges_data eng df = Inr c"
  shows "name_anomalies c = length (where_rows (is_anomaly eng ''_Name'') (rows df))"
  using assms(2) unfolding clean_badges_data_returns [OF assms(1)]
  by auto

lemma cleaned_cells:
  "select_badges eng r ''id'' = cast_long eng (r ''_Id'')"
  "select_badges eng r ''user_id'' = cast_long eng (r ''_UserId'')"
  "select_badges eng r ''name'' = string_cell (lower_col (trim_col eng (r ''_Name'')))"
  "select_badges eng r ''date'' = cast_timestamp eng (r ''_Date'')"
  "select_badges eng r ''badge_class'' = cast_int eng (r ''_Class'')"
  "select_badges eng r ''tag_based'' = cast_boolean eng (r ''_TagBased'')"
  by (simp_all add: select_badges_def)

lemma cleaned_name_trimmed:
  "string_cell (lower_col (trim_col eng v)) = StringV s \<Longrightarrow> trim s = s"
  by (cases v) (auto simp add: string_cell_def lower_col_def trim_col_def trim_lower_trim)

lemma cleaned_name_string:
  "v = StringV s \<Longrightarrow> string_cell (lower_col (trim_col eng v)) = StringV (lower (trim s))"
  by (simp add: string_cell_def lower_col_def trim_col_def)

lemma cleaned_name_null: "string_cell (lower_col (trim_col eng Null)) = Null"
  by (simp add: string_cell_def lower_col_def trim_col_def)

text \<open>
  Claim C2. In every row of the cleaned table the name is \<open>lower(trim(raw_name))\<close> of
  the raw row at the same position (null for a null raw name), and no cleaned name differs
  from its own trimmed form: trimming a cleaned name changes nothing.
\<close>

theorem cleaned_name_is_lower_trim:
  assumes "has_raw_columns df"
  shows "\<exists>c. clean_badges_data eng df = Inr c
    \<and> length (rows (df_cleaned c)) = length (rows df)
    \<and> (\<forall>i < length (rows df).
         (rows (df_cleaned c) ! i) ''name'' =
            string_cell (lower_col (trim_col eng ((rows df ! i) ''_Name'')))
       \<and> (\<forall>s. (rows df ! i) ''_Name'' = StringV s \<longrightarrow>
            (rows (df_cleaned c) ! i) ''name'' = StringV (lower (trim s)))
       \<and> ((rows df ! i) ''_Name'' = Null \<longrightarrow> (rows (df_cleaned c) ! i) ''name'' = Null)
       \<and> (\<forall>s. (rows (df_cleaned c) ! i) ''name'' = StringV s \<longrightarrow> trim s = s))"
proof -
  obtain c where c: "clean_badges_data eng df = Inr c"
    using clean_badges_data_returns [OF assms] by blast
  have rs: "rows (df_cleaned c) =
    map (\<lambda>r. (select_badges eng r)(''badge_year'' := year_col eng (select_badges eng r ''date'')))
      (rows df)"
    using assms c by (rule rows_cleaned)
  have "\<forall>i < length (rows df).
         (rows (df_cleaned c) ! i) ''name'' =
            string_cell (lower_col (trim_col eng ((rows df ! i) ''_Name'')))
       \<and> (\<forall>s. (rows df ! i) ''_Name'' = StringV s \<longrightarrow>
            (rows (df_cleaned c) ! i) ''name'' = StringV (lower (trim s)))
       \<and> ((rows df ! i) ''_Name'' = Null \<longrightarrow> (rows (df_cleaned c) ! i) ''name'' = Null)
       \<and> (\<forall>s. (rows (df_cleaned c) ! i) ''name'' = StringV s \<longrightarrow> trim s = s)"
  proof (intro allI impI)
    fix i assume i: "i < length (rows df)"
    have n: "(rows (df_cleaned c) ! i) ''name'' =
        string_cell (lower_col (trim_col eng ((rows df ! i) ''_Name'')))"
      using i by (simp add: rs cleaned_cells)
    show "(rows (df_cleaned c) ! i) ''name'' =
            string_cell (lower_col (trim_col eng ((rows df ! i) ''_Name'')))
       \<and> (\<forall>s. (rows df ! i) ''_Name'' = StringV s \<longrightarrow>
            (rows (df_cleaned c) ! i) ''name'' = StringV (lower (trim s)))
       \<and> ((rows df ! i) ''_Name'' = Null \<longrightarrow> (rows (df_cleaned c) ! i) ''name'' = Null)
       \<and> (\<forall>s. (rows (df_cleaned c) ! i) ''name'' = StringV s \<longrightarrow> trim s = s)"
      unfolding n
      using cleaned_name_trimmed [of eng "(rows df ! i) ''_Name''"]
      by (simp add: cleaned_name_string cleaned_name_null)
  qed
  moreover have "length (rows (df_cleaned c)) = length (rows df)"
    by (simp add: rs)
  ultimately show ?thesis
    using c by blast
qed

lemma nice_answer: "lower (trim ''  Nice Answer  '') = ''nice answer''"
  by (simp add: lower_def trim_def is_space_def lower_char_def)

lemma first_of_three: "(rows three_badges ! 0) ''_Name'' = StringV ''  Nice Answer  ''"
  by (simp add: three_badges_def badge_def)

theorem cleaned_name_is_lower_trim_witness:
  "has_raw_columns three_badges \<and>
   (\<exists>c. clean_badges_data sample_engine three_badges = Inr c
       \<and> (rows (df_cleaned c) ! 0) ''name'' = StringV ''nice answer''
       \<and> trim ''nice answer'' = ''nice answer'')"
proof -
  obtain c where c: "clean_badges_data sample_engine three_badges = Inr c"
    and p: "\<forall>i < length (rows three_badges).
         (\<forall>s. (rows three_badges ! i) ''_Name'' = StringV s \<longrightarrow>
            (rows (df_cleaned c) ! i) ''name'' = StringV (lower (trim s)))
       \<and> (\<forall>s. (rows (df_cleaned c) ! i) ''name'' = StringV s \<longrightarrow> trim s = s)"
    using cleaned_name_is_lower_trim [OF has_raw_columns_three, of sample_engine] by blast
  have "0 < length (rows three_badges)"
    by (simp add: length_three_badges)
  with p first_of_three have n: "(rows (df_cleaned c) ! 0) ''name'' = StringV ''nice answer''"
    using nice_answer by fastforce
  show ?thesis
    using c n has_raw_columns_three by (simp add: trim_def is_space_def)
qed

subsection \<open>The anomaly scan\<close>

lemma in_anomaly_patterns:
  "(s \<in> set anomaly_patterns) =
   (s \<in> {''nan'', ''null'', ''n/a'', ''na'', ''none'', ''-'', ''''})"
  by (simp add: anomaly_patterns_def)

lemma is_anomaly_iff:
  "(is_anomaly eng c r = Some True) =
   (case string_value eng (r c) of
      None \<Rightarrow> False
    | Some s \<Rightarrow> lower (trim s) \<in> {''nan'', ''null'', ''n/a'', ''na'', ''none'', ''-'', ''''})"
  by (cases "r c")
    (simp_all add: is_anomaly_def isin_def lower_col_def trim_col_def string_value_def
      in_anomaly_patterns)

lemma is_anomaly_null: "r c = Null \<Longrightarrow> is_anomaly eng c r = None"
  by (simp add: is_anomaly_def isin_def lower_col_def trim_col_def)

lemma anomaly_name_kept:
  assumes "is_anomaly eng ''_Name'' r = Some True"
  shows "\<exists>s \<in> set anomaly_patterns. string_cell (lower_col (trim_col eng (r ''_Name''))) = StringV s"
  using assms
  by (cases "r ''_Name''")
    (simp_all add: is_anomaly_def isin_def lower_col_def trim_col_def string_cell_def)

text \<open>
  Claim C5. The anomaly scan over the name column returns the number of rows whose
  lowercased, trimmed name is one of the seven sentinel strings \<open>nan\<close>, \<open>null\<close>,
  \<open>n/a\<close>, \<open>na\<close>, \<open>none\<close>, \<open>-\<close> and the empty string. A structurally null name is
  not a match. The matching rows are counted and nothing more: the cleaned table has a
  row for every input row, and the cleaned name of a matching row is still the sentinel.
\<close>

theorem anomaly_scan_counts_sentinels:
  assumes "has_raw_columns df"
  shows "\<exists>c. clean_badges_data eng df = Inr c
    \<and> validate_string_anomalies eng df ''_Name'' = Inr (name_anomalies c)
    \<and> name_anomalies c =
        length (filter (\<lambda>r. case string_value eng (r ''_Name'') of
                               None \<Rightarrow> False
                             | Some s \<Rightarrow> lower (trim s) \<in>
                                 {''nan'', ''null'', ''n/a'', ''na'', ''none'', ''-'', ''''})
                  (rows df))
    \<and> (\<forall>r. r ''_Name'' = Null \<longrightarrow> is_anomaly eng ''_Name'' r = None)
    \<and> length (rows (df_cleaned c)) = length (rows df)
    \<and> (\<forall>i < length (rows df). is_anomaly eng ''_Name'' (rows df ! i) = Some True \<longrightarrow>
          (\<exists>s \<in> set anomaly_patterns. (rows (df_cleaned c) ! i) ''name'' = StringV s))"
proof -
  obtain c where c: "clean_badges_data eng df = Inr c"
    using clean_badges_data_returns [OF assms] by blast
  have rs: "rows (df_cleaned c) =
    map (\<lambda>r. (select_badges eng r)(''badge_year'' := year_col eng (select_badges eng r ''date'')))
      (rows df)"
    using assms c by (rule rows_cleaned)
  have n: "name_anomalies c = length (where_rows (is_anomaly eng ''_Name'') (rows df))"
    using assms c by (rule anomalies_cleaned)
  have v: "validate_string_anomalies eng df ''_Name'' = Inr (name_anomalies c)"
    using name_is_raw_column [OF assms] by (simp add: validate_string_anomalies_def n)
  have f: "name_anomalies c =
        length (filter (\<lambda>r. case string_value eng (r ''_Name'') of
                               None \<Rightarrow> False
                             | Some s \<Rightarrow> lower (trim s) \<in>
                                 {''nan'', ''null'', ''n/a'', ''na'', ''none'', ''-'', ''''})
                  (rows df))"
    unfolding n where_rows_def is_anomaly_iff by (rule refl)
  have k: "\<forall>i < length (rows df). is_anomaly eng ''_Name'' (rows df ! i) = Some True \<longrightarrow>
          (\<exists>s \<in> set anomaly_patterns. (rows (df_cleaned c) ! i) ''name'' = StringV s)"
    using anomaly_name_kept by (simp add: rs cleaned_cells)
  have l: "length (rows (df_cleaned c)) = length (rows df)"
    by (simp add: rs)
  show ?thesis
    using c v f k l is_anomaly_null by blast
qed

lemma three_anomalies:
  "length (filter (\<lambda>r. case string_value sample_engine (r ''_Name'') of
                               None \<Rightarrow> False
                             | Some s \<Rightarrow> lower (trim s) \<in>
                                 {''nan'', ''null'', ''n/a'', ''na'', ''none'', ''-'', ''''})
                  (rows three_badges)) = 1"
  by (simp add: three_badges_def badge_def string_value_def lower_def trim_def is_space_def
      lower_char_def)

theorem anomaly_scan_counts_sentinels_witness:
  "has_raw_columns three_badges \<and>
   (\<exists>c. clean_badges_data sample_engine three_badges = Inr c
      \<and> validate_string_anomalies sample_engine three_badges ''_Name'' = Inr 1
      \<and> name_anomalies c = 1
      \<and> length (rows (df_cleaned c)) = 3)"
  using anomaly_scan_counts_sentinels [OF has_raw_columns_three, of sample_engine]
    has_raw_columns_three three_anomalies length_three_badges
  by auto

subsection \<open>The year of the badge\<close>

lemma year_null_iff: "(year_col eng (cast_timestamp eng v) = Null) = (cast_timestamp eng v = Null)"
  by (cases v) (simp_all add: year_col_def cast_timestamp_def split: option.splits)

lemma fails_timestamp_null: "fails_timestamp eng v \<Longrightarrow> cast_timestamp eng v = Null"
  by (cases v) (simp_all add: fails_timestamp_def cast_timestamp_def)

lemma cast_timestamp_null: "cast_timestamp eng Null = Null"
  by (simp add: cast_timestamp_def)

lemma year_col_null: "year_col eng Null = Null"
  by (simp add: year_col_def)

lemma export_by_year:
  assumes "''badge_year'' \<in> set (columns df)"
  shows "export_to_parquet df p (Some ''badge_year'') w =
    Inr (w\<lparr>parquet_files := (parquet_files w)(p \<mapsto> to_dataset (Some ''badge_year'') df)\<rparr>)"
  using assms
  by (simp add: export_to_parquet_def write_parquet_def Let_def split: option.splits)

lemma partition_rows_member:
  assumes "(k, part) \<in> set (partition_rows c rs)" and "r \<in> set part"
  shows "r \<in> set rs \<and> r c = k"
  using assms by (auto simp add: partition_rows_def)

text \<open>
  Claim C10. In every row of the cleaned table \<open>badge_year\<close> is null exactly when
  \<open>date\<close> is null, which is the case for a null raw date and for a raw date that fails
  the timestamp cast: no default year is put in. In the exported file set a row with a
  null date is in no part keyed by a year, only in the part keyed by null.
\<close>

theorem badge_year_null_iff_date_null:
  assumes "has_raw_columns df"
  shows "\<exists>c. clean_badges_data eng df = Inr c
    \<and> (\<forall>r \<in> set (rows (df_cleaned c)). (r ''badge_year'' = Null) = (r ''date'' = Null))
    \<and> (\<forall>i < length (rows df).
          (rows df ! i) ''_Date'' = Null \<or> fails_timestamp eng ((rows df ! i) ''_Date'') \<longrightarrow>
          (rows (df_cleaned c) ! i) ''date'' = Null \<and>
          (rows (df_cleaned c) ! i) ''badge_year'' = Null)
    \<and> (\<forall>w. \<exists>w' ds.
          export_to_parquet (df_cleaned c) output_path (Some ''badge_year'') w = Inr w'
        \<and> parquet_files w' output_path = Some ds
        \<and> (\<forall>(k, part) \<in> set (ds_parts ds). \<forall>r \<in> set part.
              r ''badge_year'' = k \<and> (r ''date'' = Null \<longrightarrow> k = Null)))"
proof -
  obtain c where c: "clean_badges_data eng df = Inr c"
    using clean_badges_data_returns [OF assms] by blast
  have rs: "rows (df_cleaned c) =
    map (\<lambda>r. (select_badges eng r)(''badge_year'' := year_col eng (select_badges eng r ''date'')))
      (rows df)"
    using assms c by (rule rows_cleaned)
  have cs: "columns (df_cleaned c) = clean_columns @ [''badge_year'']"
    using assms c by (rule columns_cleaned)
  have a: "\<forall>r \<in> set (rows (df_cleaned c)). (r ''badge_year'' = Null) = (r ''date'' = Null)"
    by (auto simp add: rs cleaned_cells year_null_iff)
  have b: "\<forall>i < length (rows df).
          (rows df ! i) ''_Date'' = Null \<or> fails_timestamp eng ((rows df ! i) ''_Date'') \<longrightarrow>
          (rows (df_cleaned c) ! i) ''date'' = Null \<and>
          (rows (df_cleaned c) ! i) ''badge_year'' = Null"
    by (auto simp add: rs cleaned_cells cast_timestamp_null year_col_null
        dest: fails_timestamp_null)
  have e: "\<forall>w. \<exists>w' ds.
          export_to_parquet (df_cleaned c) output_path (Some ''badge_year'') w = Inr w'
        \<and> parquet_files w' output_path = Some ds
        \<and> (\<forall>(k, part) \<in> set (ds_parts ds). \<forall>r \<in> set part.
              r ''badge_year'' = k \<and> (r ''date'' = Null \<longrightarrow> k = Null))"
  proof
    fix w :: world
    let ?ds = "to_dataset (Some ''badge_year'') (df_cleaned c)"
    let ?w = "w\<lparr>parquet_files := (parquet_files w)(output_path \<mapsto> ?ds)\<rparr>"
    have x: "export_to_parquet (df_cleaned c) output_path (Some ''badge_year'') w = Inr ?w"
      by (rule export_by_year) (simp add: cs)
    have y: "parquet_files ?w output_path = Some ?ds"
      by simp
    have z: "\<forall>(k, part) \<in> set (ds_parts ?ds). \<forall>r \<in> set part.
              r ''badge_year'' = k \<and> (r ''date'' = Null \<longrightarrow> k = Null)"
    proof (intro ballI, clarify)
      fix k part r
      assume "(k, part) \<in> set (ds_parts ?ds)" and r: "r \<in> set part"
      then have "(k, part) \<in> set (partition_rows ''badge_year'' (rows (df_cleaned c)))"
        by (simp add: to_dataset_def)
      then have m: "r \<in> set (rows (df_cleaned c)) \<and> r ''badge_year'' = k"
        using r by (rule partition_rows_member)
      with a show "r ''badge_year'' = k \<and> (r ''date'' = Null \<longrightarrow> k = Null)"
        by auto
    qed
    show "\<exists>w' ds.
          export_to_parquet (df_cleaned c) output_path (Some ''badge_year'') w = Inr w'
        \<and> parquet_files w' output_path = Some ds
        \<and> (\<forall>(k, part) \<in> set (ds_parts ds). \<forall>r \<in> set part.
              r ''badge_year'' = k \<and> (r ''date'' = Null \<longrightarrow> k = Null))"
      using x y z by blast
  qed
  show ?thesis
    using c a b e by blast
qed

lemma has_raw_columns_text: "has_raw_columns text_badges"
  by (simp add: has_raw_columns_def text_badges_def)

lemma text_dates:
  "fails_timestamp sample_engine ((rows text_badges ! 0) ''_Date'')"
  "(rows text_badges ! 1) ''_Date'' = Null"
  "length (rows text_badges) = 2"
  by (simp_all add: text_badges_def badge_def fails_timestamp_def sample_engine_def)

theorem badge_year_null_iff_date_null_witness:
  "has_raw_columns text_badges \<and>
   (\<exists>c. clean_badges_data sample_engine text_badges = Inr c
      \<and> (rows (df_cleaned c) ! 0) ''badge_year'' = Null
      \<and> (rows (df_cleaned c) ! 1) ''badge_year'' = Null)"
proof -
  obtain c where c: "clean_badges_data sample_engine text_badges = Inr c"
    and p: "\<forall>i < length (rows text_badges).
          (rows text_badges ! i) ''_Date'' = Null
            \<or> fails_timestamp sample_engine ((rows text_badges ! i) ''_Date'') \<longrightarrow>
          (rows (df_cleaned c) ! i) ''date'' = Null \<and>
          (rows (df_cleaned c) ! i) ''badge_year'' = Null"
    using badge_year_null_iff_date_null [OF has_raw_columns_text, of sample_engine] by blast
  have "(rows (df_cleaned c) ! 0) ''badge_year'' = Null"
    using p text_dates by simp
  moreover have "(rows (df_cleaned c) ! 1) ''badge_year'' = Null"
    using p text_dates by simp
  ultimately show ?thesis
    using c has_raw_columns_text by blast
qed

subsection \<open>Casts that fail\<close>

lemma fails_long_null: "fails_long eng v \<Longrightarrow> cast_long eng v = Null"
  by (cases v) (simp_all add: fails_long_def cast_long_def)

lemma fails_int_null: "fails_int eng v \<Longrightarrow> cast_int eng v = Null"
  by (cases v) (simp_all add: fails_int_def cast_int_def)

lemma fails_boolean_null: "fails_boolean eng v \<Longrightarrow> cast_boolean eng v = Null"
  by (cases v) (simp_all add: fails_boolean_def cast_boolean_def)

lemma length_filter_mono:
  "(\<And>x. x \<in> set xs \<Longrightarrow> P x \<Longrightarrow> Q x) \<Longrightarrow> length (filter P xs) \<le> length (filter Q xs)"
  by (induction xs) auto

lemma null_count_rows:
  "rows df = map f rs \<Longrightarrow> null_count df c = length (filter (\<lambda>r. f r c = Null) rs)"
  by (simp add: null_count_def is_null_def filter_map comp_def)

lemma scan_skips_null:
  "where_rows (is_anomaly eng c) rs = filter (\<lambda>r. r c \<noteq> Null \<and> is_anomaly eng c r = Some True) rs"
  unfolding where_rows_def
  by (rule filter_cong) (auto simp add: is_anomaly_null)

text \<open>
  Claim C8, as amended. With the engine's cast semantics taken as they are modelled (a
  coercion that fails returns no value instead of raising), \<open>clean_badges_data\<close> returns
  for every table with the six raw columns, whatever the values are; a value that
  cannot be coerced to the type of its column becomes a null in that column of the same
  row, the row is kept, and the null is counted by a null count over the cleaned column.
  The anomaly scan does not see it: on any column of the cleaned table the scan counts
  only cells that are not null.
\<close>

theorem failed_cast_becomes_null:
  assumes "has_raw_columns df"
  shows "\<exists>c. clean_badges_data eng df = Inr c
    \<and> length (rows (df_cleaned c)) = length (rows df)
    \<and> (\<forall>i < length (rows df).
          (fails_long eng ((rows df ! i) ''_Id'') \<longrightarrow> (rows (df_cleaned c) ! i) ''id'' = Null)
        \<and> (fails_long eng ((rows df ! i) ''_UserId'') \<longrightarrow>
             (rows (df_cleaned c) ! i) ''user_id'' = Null)
        \<and> (fails_timestamp eng ((rows df ! i) ''_Date'') \<longrightarrow>
             (rows (df_cleaned c) ! i) ''date'' = Null)
        \<and> (fails_int eng ((rows df ! i) ''_Class'') \<longrightarrow>
             (rows (df_cleaned c) ! i) ''badge_class'' = Null)
        \<and> (fails_boolean eng ((rows df ! i) ''_TagBased'') \<longrightarrow>
             (rows (df_cleaned c) ! i) ''tag_based'' = Null))
    \<and> length (filter (\<lambda>r. fails_long eng (r ''_Id'')) (rows df)) \<le> null_count (df_cleaned c) ''id''
    \<and> length (filter (\<lambda>r. fails_long eng (r ''_UserId'')) (rows df))
         \<le> null_count (df_cleaned c) ''user_id''
    \<and> length (filter (\<lambda>r. fails_timestamp eng (r ''_Date'')) (rows df))
         \<le> null_count (df_cleaned c) ''date''
    \<and> length (filter (\<lambda>r. fails_int eng (r ''_Class'')) (rows df))
         \<le> null_count (df_cleaned c) ''badge_class''
    \<and> length (filter (\<lambda>r. fails_boolean eng (r ''_TagBased'')) (rows df))
         \<le> null_count (df_cleaned c) ''tag_based''
    \<and> (\<forall>col \<in> set (columns (df_cleaned c)).
          validate_string_anomalies eng (df_cleaned c) col =
            Inr (length (filter (\<lambda>r. r col \<noteq> Null \<and> is_anomaly eng col r = Some True)
                   (rows (df_cleaned c)))))"
proof -
  obtain c where c: "clean_badges_data eng df = Inr c"
    using clean_badges_data_returns [OF assms] by blast
  have rs: "rows (df_cleaned c) =
    map (\<lambda>r. (select_badges eng r)(''badge_year'' := year_col eng (select_badges eng r ''date'')))
      (rows df)"
    using assms c by (rule rows_cleaned)
  have l: "length (rows (df_cleaned c)) = length (rows df)"
    by (simp add: rs)
  have cells: "\<forall>i < length (rows df).
          (fails_long eng ((rows df ! i) ''_Id'') \<longrightarrow> (rows (df_cleaned c) ! i) ''id'' = Null)
        \<and> (fails_long eng ((rows df ! i) ''_UserId'') \<longrightarrow>
             (rows (df_cleaned c) ! i) ''user_id'' = Null)
        \<and> (fails_timestamp eng ((rows df ! i) ''_Date'') \<longrightarrow>
             (rows (df_cleaned c) ! i) ''date'' = Null)
        \<and> (fails_int eng ((rows df ! i) ''_Class'') \<longrightarrow>
             (rows (df_cleaned c) ! i) ''badge_class'' = Null)
        \<and> (fails_boolean eng ((rows df ! i) ''_TagBased'') \<longrightarrow>
             (rows (df_cleaned c) ! i) ''tag_based'' = Null)"
    by (simp add: rs cleaned_cells fails_long_null fails_int_null fails_boolean_null
        fails_timestamp_null)
  have n1: "length (filter (\<lambda>r. fails_long eng (r ''_Id'')) (rows df))
      \<le> null_count (df_cleaned c) ''id''"
    unfolding null_count_rows [OF rs]
    by (rule length_filter_mono) (simp add: cleaned_cells fails_long_null)
  have n2: "length (filter (\<lambda>r. fails_long eng (r ''_UserId'')) (rows df))
      \<le> null_count (df_cleaned c) ''user_id''"
    unfolding null_count_rows [OF rs]
    by (rule length_filter_mono) (simp add: cleaned_cells fails_long_null)
  have n3: "length (filter (\<lambda>r. fails_timestamp eng (r ''_Date'')) (rows df))
      \<le> null_count (df_cleaned c) ''date''"
    unfolding null_count_rows [OF rs]
    by (rule length_filter_mono) (simp add: cleaned_cells fails_timestamp_null)
  have n4: "length (filter (\<lambda>r. fails_int eng (r ''_Class'')) (rows df))
      \<le> null_count (df_cleaned c) ''badge_class''"
    unfolding null_count_rows [OF rs]
    by (rule length_filter_mono) (simp add: cleaned_cells fails_int_null)
  have n5: "length (filter (\<lambda>r. fails_boolean eng (r ''_TagBased'')) (rows df))
      \<le> null_count (df_cleaned c) ''tag_based''"
    unfolding null_count_rows [OF rs]
    by (rule length_filter_mono) (simp add: cleaned_cells fails_boolean_null)
  have scan: "\<forall>col \<in> set (columns (df_cleaned c)).
          validate_string_anomalies eng (df_cleaned c) col =
            Inr (length (filter (\<lambda>r. r col \<noteq> Null \<and> is_anomaly eng col r = Some True)
                   (rows (df_cleaned c))))"
    by (simp add: validate_string_anomalies_def scan_skips_null)
  show ?thesis
    using c l cells n1 n2 n3 n4 n5 scan by blast
qed

lemma text_first_id: "fails_long sample_engine ((rows text_badges ! 0) ''_Id'')"
  by (simp add: text_badges_def badge_def fails_long_def sample_engine_def parse_number_def
      digit_of_def)

theorem failed_cast_becomes_null_witness:
  "has_raw_columns text_badges \<and>
   (\<exists>c. clean_badges_data sample_engine text_badges = Inr c
      \<and> length (rows (df_cleaned c)) = 2
      \<and> (rows (df_cleaned c) ! 0) ''id'' = Null
      \<and> (rows (df_cleaned c) ! 0) ''date'' = Null)"
proof -
  obtain c where c: "clean_badges_data sample_engine text_badges = Inr c"
    and l: "length (rows (df_cleaned c)) = length (rows text_badges)"
    and p: "\<forall>i < length (rows text_badges).
          (fails_long sample_engine ((rows text_badges ! i) ''_Id'') \<longrightarrow>
             (rows (df_cleaned c) ! i) ''id'' = Null)
        \<and> (fails_timestamp sample_engine ((rows text_badges ! i) ''_Date'') \<longrightarrow>
             (rows (df_cleaned c) ! i) ''date'' = Null)"
    using failed_cast_becomes_null [OF has_raw_columns_text, of sample_engine] by blast
  have "(rows (df_cleaned c) ! 0) ''id'' = Null"
    using p text_first_id text_dates(3) by simp
  moreover have "(rows (df_cleaned c) ! 0) ''date'' = Null"
    using p text_dates(1) text_dates(3) by simp
  ultimately show ?thesis
    using c l has_raw_columns_text text_dates(3) by auto
qed

text \<open>
  Against claim C8 as stated (the null is visible to the anomaly checks): the first row of
  \<open>text_badges\<close> has the id \<open>abc\<close>, which fails the cast. The null count of the cleaned
  id column is 1, the anomaly scan over that column returns 0, and so does the scan that
  \<open>clean_badges_data\<close> itself runs over the raw names.
\<close>

theorem failed_cast_unseen_by_scan:
  "fails_long sample_engine ((rows text_badges ! 0) ''_Id'') \<and>
   map_sum id
     (\<lambda>c. (null_count (df_cleaned c) ''id'',
           validate_string_anomalies sample_engine (df_cleaned c) ''id'',
           name_anomalies c))
     (clean_badges_data sample_engine text_badges) = Inr (1, Inr 0, 0)"
  unfolding clean_badges_data_returns [OF has_raw_columns_text]
  using text_first_id
  by (simp add: text_badges_def badge_def with_column_def clean_columns_def null_count_def
      is_null_def validate_string_anomalies_def where_rows_def is_anomaly_def isin_def
      lower_col_def trim_col_def select_badges_def cast_long_def sample_engine_def
      parse_number_def digit_of_def anomaly_patterns_def lower_def trim_def is_space_def
      lower_char_def)

section \<open>Properties of the profiler\<close>

lemma null_percentage_value:
  "null_percentage n t = Inr (if t > 0 then of_nat n / of_nat t * 100 else 0)"
  by (simp add: null_percentage_def truediv_def)

lemma null_percentages_value:
  "null_percentages df t cs =
     Inr (map (\<lambda>c. (c, null_count df c,
                     if t > 0 then of_nat (null_count df c) / of_nat t * 100 else 0)) cs)"
  by (induction cs) (simp_all add: null_percentage_value Let_def)

lemma null_count_le: "null_count df c \<le> length (rows df)"
  by (simp add: null_count_def)

lemma percentage_bounds:
  fixes n t :: nat
  assumes "n \<le> t"
  shows "0 \<le> (if t > 0 then of_nat n / of_nat t * 100 else (0::rat))"
    and "(if t > 0 then of_nat n / of_nat t * 100 else (0::rat)) \<le> 100"
proof -
  show "0 \<le> (if t > 0 then of_nat n / of_nat t * 100 else (0::rat))"
    by simp
  show "(if t > 0 then of_nat n / of_nat t * 100 else (0::rat)) \<le> 100"
  proof (cases "t > 0")
    case True
    have "(of_nat n :: rat) \<le> of_nat t"
      using assms by simp
    then have "(of_nat n :: rat) / of_nat t \<le> 1"
      using True by (simp add: divide_le_eq_1)
    then have "(of_nat n :: rat) / of_nat t * 100 \<le> 1 * 100"
      by (rule mult_right_mono) simp
    then have "(of_nat n :: rat) / of_nat t * 100 \<le> 100"
      by (simp only: mult_1)
    then show ?thesis
      using True by (simp only: if_True)
  next
    case False
    then show ?thesis by simp
  qed
qed

lemma no_missing_profile_column:
  "has_raw_columns df \<Longrightarrow> filter (\<lambda>c. c \<notin> set (columns df)) profile_columns = []"
  by (simp add: has_raw_columns_def raw_columns_def profile_columns_def)

lemma profile_badges_returns:
  assumes "has_raw_columns df"
  shows "\<exists>p. profile_badges eng df = Inr p
    \<and> total_rows p = length (rows df)
    \<and> null_report p =
        map (\<lambda>c. (c, null_count df c,
                   if length (rows df) > 0
                   then of_nat (null_count df c) / of_nat (length (rows df)) * 100 else 0))
          (columns df)
    \<and> invalid_class_count p = length (where_rows (is_invalid_class eng) (rows df))"
  by (simp add: profile_badges_def Let_def null_percentages_value
      no_missing_profile_column [OF assms])

lemma profile_never_divides_by_zero: "profile_badges eng df \<noteq> Inl ZeroDivisionError"
  by (simp add: profile_badges_def Let_def null_percentages_value split: list.splits)

text \<open>
  Claim C3. For every column of the loaded table the reported null percentage is
  \<open>null_count / total_count \<times> 100\<close> when the table has rows and 0 when it has none (the
  quotient taken exactly). It is between 0 and 100, it is 0 when the null count is 0, and
  no table, with or without rows, makes the profiler fail with a division by zero.
\<close>

theorem null_percentage_report:
  "null_percentage n t = Inr (if t > 0 then of_nat n / of_nat t * 100 else 0)
   \<and> profile_badges eng df \<noteq> Inl ZeroDivisionError
   \<and> (has_raw_columns df \<longrightarrow>
       (\<exists>p. profile_badges eng df = Inr p
          \<and> null_report p =
              map (\<lambda>c. (c, null_count df c,
                         if length (rows df) > 0
                         then of_nat (null_count df c) / of_nat (length (rows df)) * 100
                         else 0))
                (columns df)
          \<and> (\<forall>(c, k, q) \<in> set (null_report p).
                0 \<le> q \<and> q \<le> 100 \<and> (k = 0 \<longrightarrow> q = 0) \<and> (rows df = [] \<longrightarrow> q = 0))))"
proof (intro conjI impI)
  show "null_percentage n t = Inr (if t > 0 then of_nat n / of_nat t * 100 else 0)"
    by (rule null_percentage_value)
  show "profile_badges eng df \<noteq> Inl ZeroDivisionError"
    by (rule profile_never_divides_by_zero)
next
  assume h: "has_raw_columns df"
  obtain p where p: "profile_badges eng df = Inr p"
    and r: "null_report p =
        map (\<lambda>c. (c, null_count df c,
                   if length (rows df) > 0
                   then of_nat (null_count df c) / of_nat (length (rows df)) * 100 else 0))
          (columns df)"
    using profile_badges_returns [OF h] by blast
  have "\<forall>(c, k, q) \<in> set (null_report p).
          0 \<le> q \<and> q \<le> 100 \<and> (k = 0 \<longrightarrow> q = 0) \<and> (rows df = [] \<longrightarrow> q = 0)"
    unfolding r
    using percentage_bounds [OF null_count_le]
    by auto
  with p r show "\<exists>p. profile_badges eng df = Inr p
          \<and> null_report p =
              map (\<lambda>c. (c, null_count df c,
                         if length (rows df) > 0
                         then of_nat (null_count df c) / of_nat (length (rows df)) * 100
                         else 0))
                (columns df)
          \<and> (\<forall>(c, k, q) \<in> set (null_report p).
                0 \<le> q \<and> q \<le> 100 \<and> (k = 0 \<longrightarrow> q = 0) \<and> (rows df = [] \<longrightarrow> q = 0))"
    by blast
qed

lemma text_null_counts:
  "columns text_badges = [''_Id'', ''_UserId'', ''_Name'', ''_Date'', ''_Class'', ''_TagBased'']"
  "length (rows text_badges) = 2"
  "null_count text_badges ''_Id'' = 0"
  "null_count text_badges ''_UserId'' = 1"
  "null_count text_badges ''_Name'' = 1"
  "null_count text_badges ''_Date'' = 1"
  "null_count text_badges ''_Class'' = 1"
  "null_count text_badges ''_TagBased'' = 1"
  by (simp_all add: text_badges_def badge_def null_count_def is_null_def raw_columns_def)

lemma has_raw_columns_none: "has_raw_columns no_badges"
  by (simp add: has_raw_columns_def no_badges_def)

theorem null_percentage_report_witness:
  "has_raw_columns text_badges \<and> has_raw_columns no_badges
   \<and> (\<exists>p. profile_badges sample_engine text_badges = Inr p
        \<and> null_report p =
            [(''_Id'', 0, 0), (''_UserId'', 1, 50), (''_Name'', 1, 50), (''_Date'', 1, 50),
             (''_Class'', 1, 50), (''_TagBased'', 1, 50)])
   \<and> (\<exists>p. profile_badges sample_engine no_badges = Inr p
        \<and> (\<forall>(c, k, q) \<in> set (null_report p). q = 0))"
proof -
  have a: "\<exists>p. profile_badges sample_engine text_badges = Inr p
        \<and> null_report p =
            [(''_Id'', 0, 0), (''_UserId'', 1, 50), (''_Name'', 1, 50), (''_Date'', 1, 50),
             (''_Class'', 1, 50), (''_TagBased'', 1, 50)]"
    using null_percentage_report [of 0 0 sample_engine text_badges] has_raw_columns_text
    by (auto simp add: text_null_counts)
  have b: "\<exists>p. profile_badges sample_engine no_badges = Inr p
        \<and> (\<forall>(c, k, q) \<in> set (null_report p). q = 0)"
    using null_percentage_report [of 0 0 sample_engine no_badges] has_raw_columns_none
    by (auto simp add: no_badges_def)
  show ?thesis
    using a b has_raw_columns_text has_raw_columns_none by blast
qed

subsection \<open>Invalid classes\<close>

lemma is_invalid_class_null: "r ''_Class'' = Null \<Longrightarrow> is_invalid_class eng r = None"
  by (simp add: is_invalid_class_def not3_def isin_literals_def)

lemma is_invalid_class_integer:
  assumes "is_integer_cell (r ''_Class'')"
  shows "(is_invalid_class eng r = Some True) =
    (r ''_Class'' \<noteq> Null \<and> int_value (r ''_Class'') \<notin> {Some 1, Some 2, Some 3})"
  using assms
  by (cases "r ''_Class''")
    (simp_all add: is_integer_cell_def is_invalid_class_def not3_def isin_literals_def
      int_value_def)

lemma invalid_rows_not_null:
  "where_rows (is_invalid_class eng) rs =
   filter (\<lambda>r. r ''_Class'' \<noteq> Null \<and> is_invalid_class eng r = Some True) rs"
  unfolding where_rows_def
  by (rule filter_cong) (auto simp add: is_invalid_class_null)

lemma invalid_rows_integer:
  assumes "list_all (\<lambda>r. is_integer_cell (r ''_Class'')) rs"
  shows "where_rows (is_invalid_class eng) rs =
    filter (\<lambda>r. r ''_Class'' \<noteq> Null \<and> int_value (r ''_Class'') \<notin> {Some 1, Some 2, Some 3}) rs"
  unfolding where_rows_def
proof (rule filter_cong)
  show "rs = rs" by (rule refl)
next
  fix r assume "r \<in> set rs"
  with assms have "is_integer_cell (r ''_Class'')"
    by (simp add: list_all_iff)
  then show "(is_invalid_class eng r = Some True) =
    (r ''_Class'' \<noteq> Null \<and> int_value (r ''_Class'') \<notin> {Some 1, Some 2, Some 3})"
    by (rule is_invalid_class_integer)
qed

lemma three_invalid:
  "length (where_rows (is_invalid_class eng) (rows three_badges)) = 1"
  by (auto simp add: where_rows_def is_invalid_class_def not3_def isin_literals_def
      three_badges_def badge_def)

text \<open>
  Claim C4, as amended. For every loaded table whose class column holds integers and
  nulls, the invalid-class count of the profiler is the number of rows whose class value
  is not null and not in \<open>{1,2,3}\<close>. A row with a null class is not counted, in this and
  in every other table. For the three rows with the classes 1, 2 and 99 the count is 1.
\<close>

theorem invalid_class_count_non_null:
  "(has_raw_columns df \<longrightarrow>
     (\<exists>p. profile_badges eng df = Inr p
        \<and> invalid_class_count p =
            length (filter (\<lambda>r. r ''_Class'' \<noteq> Null \<and> is_invalid_class eng r = Some True)
                      (rows df))
        \<and> (class_is_integer df \<longrightarrow>
             invalid_class_count p =
               length (filter (\<lambda>r. r ''_Class'' \<noteq> Null
                                  \<and> int_value (r ''_Class'') \<notin> {Some 1, Some 2, Some 3})
                         (rows df)))))
   \<and> map_sum id invalid_class_count (profile_badges eng three_badges) = Inr 1"
proof (intro conjI impI)
  assume h: "has_raw_columns df"
  obtain p where p: "profile_badges eng df = Inr p"
    and n: "invalid_class_count p = length (where_rows (is_invalid_class eng) (rows df))"
    using profile_badges_returns [OF h] by blast
  have f: "invalid_class_count p =
            length (filter (\<lambda>r. r ''_Class'' \<noteq> Null \<and> is_invalid_class eng r = Some True)
                      (rows df))"
    unfolding n by (simp only: invalid_rows_not_null)
  have g: "class_is_integer df \<longrightarrow>
             invalid_class_count p =
               length (filter (\<lambda>r. r ''_Class'' \<noteq> Null
                                  \<and> int_value (r ''_Class'') \<notin> {Some 1, Some 2, Some 3})
                         (rows df))"
    unfolding n class_is_integer_def by (simp add: invalid_rows_integer)
  show "\<exists>p. profile_badges eng df = Inr p
        \<and> invalid_class_count p =
            length (filter (\<lambda>r. r ''_Class'' \<noteq> Null \<and> is_invalid_class eng r = Some True)
                      (rows df))
        \<and> (class_is_integer df \<longrightarrow>
             invalid_class_count p =
               length (filter (\<lambda>r. r ''_Class'' \<noteq> Null
                                  \<and> int_value (r ''_Class'') \<notin> {Some 1, Some 2, Some 3})
                         (rows df)))"
    using p f g by blast
next
  obtain p where p: "profile_badges eng three_badges = Inr p"
    and n: "invalid_class_count p = length (where_rows (is_invalid_class eng) (rows three_badges))"
    using profile_badges_returns [OF has_raw_columns_three] by blast
  show "map_sum id invalid_class_count (profile_badges eng three_badges) = Inr 1"
    by (simp add: p n three_invalid)
qed

lemma has_raw_columns_null_class: "has_raw_columns null_class_badges"
  by (simp add: has_raw_columns_def null_class_badges_def)

lemma null_class_is_integer: "class_is_integer null_class_badges"
  by (simp add: class_is_integer_def is_integer_cell_def null_class_badges_def badge_def)

lemma null_class_rows:
  "length (filter (\<lambda>r. r ''_Class'' \<noteq> Null
                       \<and> int_value (r ''_Class'') \<notin> {Some 1, Some 2, Some 3})
             (rows null_class_badges)) = 0"
  by (simp add: null_class_badges_def badge_def int_value_def)

theorem invalid_class_count_non_null_witness:
  "has_raw_columns null_class_badges \<and> class_is_integer null_class_badges
   \<and> (\<exists>p. profile_badges sample_engine null_class_badges = Inr p \<and> invalid_class_count p = 0)"
  using invalid_class_count_non_null [of null_class_badges sample_engine]
    has_raw_columns_null_class null_class_is_integer null_class_rows
  by auto

text \<open>
  Against claim C4 as stated (the count is the number of rows whose class is not in
  \<open>{1,2,3}\<close>): of the two rows of \<open>null_class_badges\<close> one has a null class, which is not
  in the set, and the profiler counts no row.
\<close>

theorem null_class_not_counted:
  "map_sum id invalid_class_count (profile_badges sample_engine null_class_badges) = Inr 0
   \<and> spec_invalid_class_count null_class_badges = 1"
proof -
  obtain p where p: "profile_badges sample_engine null_class_badges = Inr p"
    and n: "invalid_class_count p =
      length (where_rows (is_invalid_class sample_engine) (rows null_class_badges))"
    using profile_badges_returns [OF has_raw_columns_null_class] by blast
  have "length (where_rows (is_invalid_class sample_engine) (rows null_class_badges)) = 0"
    by (simp add: where_rows_def is_invalid_class_def not3_def isin_literals_def
      null_class_badges_def badge_def)
  moreover have "spec_invalid_class_count null_class_badges = 1"
    by (simp add: spec_invalid_class_count_def int_value_def null_class_badges_def badge_def)
  ultimately show ?thesis
    by (simp add: p n)
qed

section \<open>Properties of the export, the validation and the runs\<close>

lemma length_filter_disjoint:
  "(\<And>x. x \<in> set xs \<Longrightarrow> \<not> (P x \<and> Q x)) \<Longrightarrow>
   length (filter P xs) + length (filter Q xs) = length (filter (\<lambda>x. P x \<or> Q x) xs)"
  by (induction xs) auto

lemma group_sizes:
  "distinct ks \<Longrightarrow>
   sum_list (map (\<lambda>k. length (filter (\<lambda>r. f r = k) rs)) ks) =
   length (filter (\<lambda>r. f r \<in> set ks) rs)"
proof (induction ks)
  case Nil
  then show ?case by simp
next
  case (Cons k ks)
  then have d: "k \<notin> set ks" and ih:
    "sum_list (map (\<lambda>k. length (filter (\<lambda>r. f r = k) rs)) ks) =
     length (filter (\<lambda>r. f r \<in> set ks) rs)"
    by simp_all
  have "length (filter (\<lambda>r. f r = k) rs) + length (filter (\<lambda>r. f r \<in> set ks) rs) =
    length (filter (\<lambda>r. f r = k \<or> f r \<in> set ks) rs)"
    using d by (intro length_filter_disjoint) auto
  then show ?case
    by (simp add: ih)
qed

lemma length_partition_rows:
  "length (concat (map snd (partition_rows c rs))) = length rs"
proof -
  have "length (concat (map snd (partition_rows c rs))) =
    sum_list (map (\<lambda>k. length (filter (\<lambda>r. r c = k) rs)) (remdups (map (\<lambda>r. r c) rs)))"
    by (simp add: partition_rows_def length_concat comp_def)
  also have "\<dots> = length (filter (\<lambda>r. r c \<in> set (remdups (map (\<lambda>r. r c) rs))) rs)"
    by (rule group_sizes) simp
  also have "\<dots> = length rs"
    by simp
  finally show ?thesis .
qed

lemma partition_rows_empty: "(partition_rows c rs = []) = (rs = [])"
  by (simp add: partition_rows_def)

lemma validate_reads_back:
  assumes "parquet_files w p = Some ds" and "ds_parts ds \<noteq> []"
    and "''badge_year'' \<in> set (ds_columns ds)"
  shows "\<exists>v. validate_parquet_output w p = Inr v
    \<and> parquet_count v = length (concat (map snd (ds_parts ds)))"
  using assms by (simp add: validate_parquet_output_def read_parquet_def)

lemma finish_ignores_cleaning: "finish_cleaning c w = finish_cleaning c' w"
  by (simp add: finish_cleaning_def)

lemma cleaning_round_trip:
  assumes "has_raw_columns df" and "rows df \<noteq> []" and "xml_files w input_path = Some df"
  shows "fst (cleaning_main eng w) = Inr (length (rows df))"
proof -
  obtain c where c: "clean_badges_data eng df = Inr c"
    using clean_badges_data_returns [OF assms(1)] by blast
  have rs: "rows (df_cleaned c) =
    map (\<lambda>r. (select_badges eng r)(''badge_year'' := year_col eng (select_badges eng r ''date'')))
      (rows df)"
    using assms(1) c by (rule rows_cleaned)
  have cs: "columns (df_cleaned c) = clean_columns @ [''badge_year'']"
    using assms(1) c by (rule columns_cleaned)
  let ?w = "create_spark_session w"
  let ?ds = "to_dataset (Some ''badge_year'') (df_cleaned c)"
  let ?w' = "?w\<lparr>parquet_files := (parquet_files ?w)(output_path \<mapsto> ?ds)\<rparr>"
  have l: "load_badges_xml ?w input_path = Inr df"
    using assms(3) by (simp add: load_badges_xml_def create_spark_session_def)
  have e: "export_to_parquet (df_cleaned c) output_path (Some ''badge_year'') ?w = Inr ?w'"
    by (rule export_by_year) (simp add: cs)
  have "parquet_files ?w' output_path = Some ?ds"
    by simp
  moreover have "ds_parts ?ds \<noteq> []"
    using assms(2) by (simp add: to_dataset_def partition_rows_empty rs)
  moreover have "''badge_year'' \<in> set (ds_columns ?ds)"
    by (simp add: to_dataset_def cs)
  ultimately obtain v where v: "validate_parquet_output ?w' output_path = Inr v"
    and n: "parquet_count v = length (concat (map snd (ds_parts ?ds)))"
    using validate_reads_back by blast
  have "parquet_count v = length (rows df)"
    by (simp add: n to_dataset_def length_partition_rows rs)
  then show ?thesis
    by (simp add: cleaning_main_def Let_def l c e finish_cleaning_def v)
qed

lemma world_of_three: "xml_files (world_of three_badges) input_path = Some three_badges"
  by (simp add: world_of_def)

lemma three_not_empty: "rows three_badges \<noteq> []"
  by (simp add: three_badges_def)

lemma three_badges_run: "fst (cleaning_main sample_engine (world_of three_badges)) = Inr 3"
  using cleaning_round_trip [OF has_raw_columns_three three_not_empty world_of_three]
  by (simp add: length_three_badges)

subsection \<open>The validation\<close>

text \<open>
  Claim C6, as amended. After the export the validator reads the file set under the
  output path back and counts its rows; that count is what it returns and what \<open>main\<close>
  reports. Neither the validator nor \<open>main\<close> compares it with the count before the
  export: the steps after the export give the same result whatever the cleaning step
  counted, so a mismatch raises no failure. When the store holds what the export wrote,
  a run over a table that has rows reports the row count of its input.
\<close>

theorem read_back_count_not_compared:
  "finish_cleaning c w = finish_cleaning c' w
   \<and> (parquet_files w p = Some ds \<and> ds_parts ds \<noteq> [] \<and> ''badge_year'' \<in> set (ds_columns ds) \<longrightarrow>
        (\<exists>v. validate_parquet_output w p = Inr v
           \<and> parquet_count v = length (concat (map snd (ds_parts ds)))))
   \<and> (has_raw_columns df \<and> rows df \<noteq> [] \<and> xml_files w input_path = Some df \<longrightarrow>
        fst (cleaning_main eng w) = Inr (length (rows df)))"
  using finish_ignores_cleaning validate_reads_back cleaning_round_trip by blast

lemma stale_files_facts:
  "parquet_files stale_world output_path = Some stale_files"
  "ds_parts stale_files \<noteq> []"
  "''badge_year'' \<in> set (ds_columns stale_files)"
  "length (concat (map snd (ds_parts stale_files))) = 1"
  by (simp_all add: stale_world_def stale_files_def)

theorem read_back_count_not_compared_witness:
  "(parquet_files stale_world output_path = Some stale_files \<and> ds_parts stale_files \<noteq> []
      \<and> ''badge_year'' \<in> set (ds_columns stale_files))
   \<and> (\<exists>v. validate_parquet_output stale_world output_path = Inr v \<and> parquet_count v = 1)
   \<and> (has_raw_columns three_badges \<and> rows three_badges \<noteq> []
      \<and> xml_files (world_of three_badges) input_path = Some three_badges)
   \<and> fst (cleaning_main sample_engine (world_of three_badges)) = Inr 3"
proof -
  have a: "\<exists>v. validate_parquet_output stale_world output_path = Inr v \<and> parquet_count v = 1"
    using read_back_count_not_compared
      [where w = stale_world and p = output_path and ds = stale_files]
      stale_files_facts
    by simp
  have b: "fst (cleaning_main sample_engine (world_of three_badges)) = Inr 3"
    using read_back_count_not_compared
      [where w = "world_of three_badges" and df = three_badges and eng = sample_engine]
      has_raw_columns_three three_not_empty world_of_three
    by (simp add: length_three_badges)
  show ?thesis
    using a b stale_files_facts has_raw_columns_three three_not_empty world_of_three by simp
qed

lemma three_cleaned: "map_sum id final_count (clean_badges_data sample_engine three_badges) = Inr 3"
  by (simp add: clean_badges_data_returns [OF has_raw_columns_three] length_three_badges)

text \<open>
  Against claim C6 as stated (a mismatch is surfaced as a validation failure): the
  cleaned table has 3 rows, the file set read back has 1, and the steps after the export
  end with the result 1 and no error.
\<close>

theorem mismatch_is_no_failure:
  "map_sum id (\<lambda>c. (final_count c, fst (finish_cleaning c stale_world)))
     (clean_badges_data sample_engine three_badges) = Inr (3, Inr 1)"
  by (simp add: clean_badges_data_returns [OF has_raw_columns_three] length_three_badges
      finish_cleaning_def validate_parquet_output_def read_parquet_def stale_world_def
      stale_files_def group_counts_def clean_columns_def)

subsection \<open>The session\<close>

text \<open>
  Claim C7, as amended. In every run of either \<open>main\<close> the session acquired at the start
  is released at the end exactly when every step succeeds: the session is still active
  after the run if and only if the run ended with an error. A failing step leaves \<open>main\<close>
  before \<open>spark.stop()\<close>; there is no cleanup on the failing paths.
\<close>

theorem session_released_on_success_only:
  "session_active (snd (cleaning_main eng w)) = isl (fst (cleaning_main eng w))
   \<and> session_active (snd (analysis_main eng w)) = isl (fst (analysis_main eng w))"
  by (simp add: cleaning_main_def analysis_main_def finish_cleaning_def Let_def
      create_spark_session_def spark_stop_def export_to_parquet_def write_parquet_def
      split: sum.splits option.splits list.splits save_mode.splits)

text \<open>
  Against claim C7 as stated (the session is released on every failing path): with no
  input file the load fails in both scripts, and the session is still active after
  \<open>main\<close>.
\<close>

theorem session_left_open_on_failure:
  "fst (cleaning_main sample_engine empty_world) = Inl (PathNotFound input_path)
   \<and> session_active (snd (cleaning_main sample_engine empty_world))
   \<and> fst (analysis_main sample_engine empty_world) = Inl (PathNotFound input_path)
   \<and> session_active (snd (analysis_main sample_engine empty_world))"
  by (simp add: cleaning_main_def analysis_main_def Let_def create_spark_session_def
      load_badges_xml_def empty_world_def)

theorem session_released_on_success_only_witness:
  "fst (cleaning_main sample_engine (world_of three_badges)) = Inr 3
   \<and> \<not> session_active (snd (cleaning_main sample_engine (world_of three_badges)))"
  using session_released_on_success_only [of sample_engine "world_of three_badges"]
    three_badges_run
  by simp

subsection \<open>Running twice\<close>

lemma create_twice: "create_spark_session (create_spark_session w) = create_spark_session w"
  by (simp add: create_spark_session_def)

lemma run_created: "cleaning_main eng (create_spark_session w) = cleaning_main eng w"
  by (simp add: cleaning_main_def create_twice)

lemma export_replaces:
  "map_sum id (\<lambda>w'. parquet_files w' p)
     (export_to_parquet df p part (w\<lparr>parquet_files := (parquet_files w)(p \<mapsto> old)\<rparr>)) =
   map_sum id (\<lambda>w'. parquet_files w' p) (export_to_parquet df p part w)"
  by (simp add: export_to_parquet_def write_parquet_def Let_def
      split: option.splits list.splits)

lemma export_twice:
  "export_to_parquet df p part w = Inr w' \<Longrightarrow> export_to_parquet df p part w' = Inr w'"
  by (auto simp add: export_to_parquet_def write_parquet_def Let_def
      split: option.splits list.splits if_splits)

lemma export_keeps:
  "export_to_parquet df p part w = Inr w' \<Longrightarrow>
   xml_files w' = xml_files w \<and> session_active w' = session_active w"
  by (auto simp add: export_to_parquet_def write_parquet_def Let_def
      split: option.splits list.splits if_splits)

lemma cleaning_main_twice: "cleaning_main eng (snd (cleaning_main eng w0)) = cleaning_main eng w0"
proof -
  let ?w = "create_spark_session w0"
  have active: "session_active ?w"
    by (simp add: create_spark_session_def)
  have same: "create_spark_session ?w = ?w"
    by (rule create_twice)
  show ?thesis
  proof (cases "load_badges_xml ?w input_path")
    case (Inl e)
    then have "cleaning_main eng w0 = (Inl e, ?w)"
      by (simp add: cleaning_main_def)
    then show ?thesis
      by (simp add: run_created)
  next
    case load: (Inr df)
    show ?thesis
    proof (cases "clean_badges_data eng df")
      case (Inl e)
      then have "cleaning_main eng w0 = (Inl e, ?w)"
        using load by (simp add: cleaning_main_def)
      then show ?thesis
        by (simp add: run_created)
    next
      case clean: (Inr c)
      show ?thesis
      proof (cases "export_to_parquet (df_cleaned c) output_path (Some ''badge_year'') ?w")
        case (Inl e)
        then have "cleaning_main eng w0 = (Inl e, ?w)"
          using load clean by (simp add: cleaning_main_def)
        then show ?thesis
          by (simp add: run_created)
      next
        case export: (Inr w')
        have first: "cleaning_main eng w0 = finish_cleaning c w'"
          using load clean export by (simp add: cleaning_main_def)
        have keeps: "xml_files w' = xml_files ?w" "session_active w'"
          using export_keeps [OF export] active by simp_all
        have again: "export_to_parquet (df_cleaned c) output_path (Some ''badge_year'') w' = Inr w'"
          using export by (rule export_twice)
        have created: "create_spark_session w' = w'"
          using keeps(2) by (simp add: create_spark_session_def)
        have load': "load_badges_xml w' input_path = Inr df"
          using load keeps(1) by (simp add: load_badges_xml_def)
        have second: "cleaning_main eng w' = finish_cleaning c w'"
          using load' clean again by (simp add: cleaning_main_def created)
        have "snd (finish_cleaning c w') = w' \<or> snd (finish_cleaning c w') = spark_stop w'"
          by (simp add: finish_cleaning_def split: sum.splits)
        moreover have "create_spark_session (spark_stop w') = w'"
          using keeps(2) by (simp add: create_spark_session_def spark_stop_def)
        then have "cleaning_main eng (spark_stop w') = cleaning_main eng w'"
          using run_created [of eng "spark_stop w'"] by simp
        ultimately have "cleaning_main eng (snd (finish_cleaning c w')) = cleaning_main eng w'"
          by auto
        then show ?thesis
          by (simp add: first second)
      qed
    qed
  qed
qed

text \<open>
  Claim C9. A second run of the cleaner and exporter from the world the first run left,
  on the same input and output path, ends with the same result and the same world as
  the first: the same row count and the same per-partition counts are read back. The
  export replaces what is under the destination path: the file set there after an export
  does not depend on what was there before, and with the partition column \<open>badge_year\<close>
  it is the partitioned table alone.
\<close>

theorem second_run_replaces_first:
  "cleaning_main eng (snd (cleaning_main eng w)) = cleaning_main eng w
   \<and> validate_parquet_output (snd (cleaning_main eng (snd (cleaning_main eng w)))) output_path =
       validate_parquet_output (snd (cleaning_main eng w)) output_path
   \<and> map_sum id (\<lambda>w'. parquet_files w' p)
       (export_to_parquet df p part (w\<lparr>parquet_files := (parquet_files w)(p \<mapsto> old)\<rparr>)) =
     map_sum id (\<lambda>w'. parquet_files w' p) (export_to_parquet df p part w)
   \<and> (''badge_year'' \<in> set (columns df) \<longrightarrow>
       map_sum id (\<lambda>w'. parquet_files w' p)
         (export_to_parquet df p (Some ''badge_year'')
            (w\<lparr>parquet_files := (parquet_files w)(p \<mapsto> old)\<rparr>)) =
       Inr (Some (to_dataset (Some ''badge_year'') df)))"
  by (simp add: cleaning_main_twice export_replaces export_by_year)

theorem second_run_replaces_first_witness:
  "''badge_year'' \<in> set (columns \<lparr>columns = [''badge_year''], rows = []\<rparr>)
   \<and> map_sum id (\<lambda>w'. parquet_files w' output_path)
       (export_to_parquet \<lparr>columns = [''badge_year''], rows = []\<rparr> output_path
          (Some ''badge_year'') stale_world) =
     Inr (Some (to_dataset (Some ''badge_year'') \<lparr>columns = [''badge_year''], rows = []\<rparr>))
   \<and> fst (cleaning_main sample_engine (snd (cleaning_main sample_engine (world_of three_badges))))
       = Inr 3"
proof -
  have same: "stale_world\<lparr>parquet_files := (parquet_files stale_world)(output_path \<mapsto> stale_files)\<rparr>
      = stale_world"
    by (simp add: stale_world_def)
  have a: "map_sum id (\<lambda>w'. parquet_files w' output_path)
       (export_to_parquet \<lparr>columns = [''badge_year''], rows = []\<rparr> output_path
          (Some ''badge_year'') stale_world) =
     Inr (Some (to_dataset (Some ''badge_year'') \<lparr>columns = [''badge_year''], rows = []\<rparr>))"
    using second_run_replaces_first
      [where df = "\<lparr>columns = [''badge_year''], rows = []\<rparr>" and p = output_path
         and w = stale_world and old = stale_files]
    by (simp add: same)
  have b: "fst (cleaning_main sample_engine
      (snd (cleaning_main sample_engine (world_of three_badges)))) = Inr 3"
    using second_run_replaces_first [where eng = sample_engine and w = "world_of three_badges"]
      three_badges_run
    by simp
  show ?thesis
    using a b by simp
qed

end
